theory Spec2Isabelle
  imports Main
begin

section \<open>Chess pieces: the state of a piece, a rook and a pawn\<close>

text \<open>
  A shallow embedding of \<^verbatim>\<open>ChessPiece.cpp\<close>, \<^verbatim>\<open>Rook.cpp\<close> and \<^verbatim>\<open>Pawn.cpp\<close>.

  \<^item> A class is a record of its data members; the derived classes \<^verbatim>\<open>Rook\<close> and
    \<^verbatim>\<open>Pawn\<close> are record extensions of \<^verbatim>\<open>ChessPiece\<close>, so a member function of
    the base class (typed over the record scheme) applies to a rook and to a pawn, and
    \<^verbatim>\<open>canCastle\<close> accepts any piece, a rook included. The members \<^verbatim>\<open>color_\<close>,
    \<^verbatim>\<open>row_\<close>, \<^verbatim>\<open>column_\<close>, \<^verbatim>\<open>movingUp_\<close>, \<^verbatim>\<open>castle_moves_left_\<close> and
    \<^verbatim>\<open>double_jumpable_\<close> lose their trailing underscore, which a name cannot end with.
  \<^item> A member function that assigns to a member takes the object and returns the new
    object; a \<^verbatim>\<open>const\<close> member function is a function of the object alone.
  \<^item> \<^verbatim>\<open>int\<close> is modelled by \<^typ>\<open>int\<close>. The code compares and stores its integer
    arguments; it computes only \<^verbatim>\<open>BOARD_LENGTH - 1\<close> and, in \<^verbatim>\<open>canCastle\<close>, the
    difference of two stored columns. Lemma \<open>canCastle_difference_int32\<close> below shows
    that this difference stays within 32 bits for every position the class stores.
  \<^item> \<^verbatim>\<open>BOARD_LENGTH\<close> is declared in \<^verbatim>\<open>ChessPiece.hpp\<close>, which is not among the
    sources: every function that reads it takes it as its first argument \<open>BL\<close>.
  \<^item> \<^verbatim>\<open>std::string\<close> is \<^typ>\<open>string\<close>, a list of 8-bit characters.
\<close>

subsection \<open>Library functions the code calls\<close>

text \<open>
  \<^verbatim>\<open>std::isalpha\<close> and \<^verbatim>\<open>std::toupper\<close> in the default "C" locale (the code never
  sets another one): the alphabetic characters are the 52 ASCII letters (no byte above
  127 is one), and only the lower-case letters have an upper-case counterpart, 32 code
  points below.
\<close>

definition isalpha :: "char \<Rightarrow> bool" where
  "isalpha c = (let n = (of_char c :: nat) in (65 \<le> n \<and> n \<le> 90) \<or> (97 \<le> n \<and> n \<le> 122))"

definition toupper :: "char \<Rightarrow> char" where
  "toupper c = (let n = (of_char c :: nat) in if 97 \<le> n \<and> n \<le> 122 then char_of (n - 32) else c)"

text \<open>
  \<^verbatim>\<open>std::cout << n\<close> for an \<^verbatim>\<open>int\<close> writes its decimal digits, after a minus sign
  when it is negative; \<^verbatim>\<open>std::endl\<close> writes a line feed.
\<close>

fun show_nat :: "nat \<Rightarrow> string" where
  "show_nat n = (if n < 10 then [char_of (48 + n)]
                 else show_nat (n div 10) @ [char_of (48 + n mod 10)])"

declare show_nat.simps [simp del]

definition show_int :: "int \<Rightarrow> string" where
  "show_int i = (if i < 0 then CHR ''-'' # show_nat (nat (- i)) else show_nat (nat i))"

definition endl :: string where
  "endl = [CHR 0x0A]"

subsection \<open>ChessPiece\<close>

record ChessPiece =
  color :: string
  row :: int
  column :: int
  movingUp :: bool

text \<open>The default constructor.\<close>

definition ChessPiece_default :: ChessPiece where
  "ChessPiece_default = \<lparr>color = ''BLACK'', row = - 1, column = - 1, movingUp = False\<rparr>"

text \<open>
  The first loop of the parameterized constructor and of \<^verbatim>\<open>setColor\<close>: the flag
  starts true, and the first character that is not alphabetic clears it and leaves the
  loop.
\<close>

fun isAlphabetic :: "string \<Rightarrow> bool" where
  "isAlphabetic [] = True"
| "isAlphabetic (c # cs) = (if \<not> isalpha c then False else isAlphabetic cs)"

text \<open>The second loop: every character of the copy is replaced by its upper case.\<close>

fun uppercase :: "string \<Rightarrow> string" where
  "uppercase [] = []"
| "uppercase (c # cs) = toupper c # uppercase cs"

text \<open>The parameterized constructor.\<close>

definition ChessPiece_param :: "int \<Rightarrow> string \<Rightarrow> int \<Rightarrow> int \<Rightarrow> bool \<Rightarrow> ChessPiece" where
  "ChessPiece_param BL clr r c mu =
     (let color' = (if isAlphabetic clr then uppercase clr else ''BLACK'');
          (row', column') = (if r \<ge> 0 \<and> r < BL \<and> c \<ge> 0 \<and> c < BL then (r, c) else (- 1, - 1))
      in \<lparr>color = color', row = row', column = column', movingUp = mu\<rparr>)"

definition getColor :: "'a ChessPiece_scheme \<Rightarrow> string" where
  "getColor p = color p"

text \<open>\<^verbatim>\<open>setColor\<close> returns its result together with the object.\<close>

definition setColor :: "string \<Rightarrow> 'a ChessPiece_scheme \<Rightarrow> bool \<times> 'a ChessPiece_scheme" where
  "setColor clr p =
     (if isAlphabetic clr then (True, p\<lparr>color := uppercase clr\<rparr>) else (False, p))"

definition getRow :: "'a ChessPiece_scheme \<Rightarrow> int" where
  "getRow p = row p"

definition setRow :: "int \<Rightarrow> int \<Rightarrow> 'a ChessPiece_scheme \<Rightarrow> 'a ChessPiece_scheme" where
  "setRow BL r p =
     (if r \<ge> 0 \<and> r < BL then p\<lparr>row := r\<rparr> else p\<lparr>row := - 1, column := - 1\<rparr>)"

definition getColumn :: "'a ChessPiece_scheme \<Rightarrow> int" where
  "getColumn p = column p"

definition setColumn :: "int \<Rightarrow> int \<Rightarrow> 'a ChessPiece_scheme \<Rightarrow> 'a ChessPiece_scheme" where
  "setColumn BL c p =
     (if c \<ge> 0 \<and> c < BL then p\<lparr>column := c\<rparr> else p\<lparr>row := - 1, column := - 1\<rparr>)"

definition isMovingUp :: "'a ChessPiece_scheme \<Rightarrow> bool" where
  "isMovingUp p = movingUp p"

definition setMovingUp :: "bool \<Rightarrow> 'a ChessPiece_scheme \<Rightarrow> 'a ChessPiece_scheme" where
  "setMovingUp mu p = p\<lparr>movingUp := mu\<rparr>"

text \<open>
  \<^verbatim>\<open>display\<close> is not \<^verbatim>\<open>const\<close>: it takes the object and what has been written to
  \<^verbatim>\<open>std::cout\<close> so far, and returns both.
\<close>

definition display :: "'a ChessPiece_scheme \<Rightarrow> string \<Rightarrow> 'a ChessPiece_scheme \<times> string" where
  "display p cout =
     (if row p \<noteq> - 1 \<and> column p \<noteq> - 1
      then (p, cout @ color p @ '' piece at ('' @ show_int (row p) @ '','' @ show_int (column p)
                 @ '') is moving '' @ (if movingUp p then ''UP'' else ''DOWN'') @ endl)
      else (p, cout @ color p @ '' piece is not on the board'' @ endl))"

subsection \<open>Rook\<close>

record Rook = ChessPiece +
  castle_moves_left :: int

definition Rook_default :: Rook where
  "Rook_default = ChessPiece.extend ChessPiece_default (Rook.fields 3)"

definition Rook_param :: "int \<Rightarrow> string \<Rightarrow> int \<Rightarrow> int \<Rightarrow> bool \<Rightarrow> int \<Rightarrow> Rook" where
  "Rook_param BL clr r c mu castleMoves =
     ChessPiece.extend (ChessPiece_param BL clr r c mu) (Rook.fields (max 0 castleMoves))"

definition canCastle :: "'a Rook_scheme \<Rightarrow> 'b ChessPiece_scheme \<Rightarrow> bool" where
  "canCastle this piece =
     (if castle_moves_left this \<le> 0 then False
      else if getColor this \<noteq> getColor piece then False
      else if getRow this = - 1 \<or> getColumn this = - 1 \<or> getRow piece = - 1 \<or> getColumn piece = - 1
        then False
      else if getRow this \<noteq> getRow piece then False
      else if \<bar>getColumn this - getColumn piece\<bar> > 1 then False
      else True)"

definition getCastleMovesLeft :: "'a Rook_scheme \<Rightarrow> int" where
  "getCastleMovesLeft this = castle_moves_left this"

subsection \<open>Pawn\<close>

record Pawn = ChessPiece +
  double_jumpable :: bool

definition Pawn_default :: Pawn where
  "Pawn_default = ChessPiece.extend ChessPiece_default (Pawn.fields False)"

definition Pawn_param :: "int \<Rightarrow> string \<Rightarrow> int \<Rightarrow> int \<Rightarrow> bool \<Rightarrow> bool \<Rightarrow> Pawn" where
  "Pawn_param BL clr r c mu doubleJumpable =
     ChessPiece.extend (ChessPiece_param BL clr r c mu) (Pawn.fields doubleJumpable)"

definition canDoubleJump :: "'a Pawn_scheme \<Rightarrow> bool" where
  "canDoubleJump this = double_jumpable this"

definition toggleDoubleJump :: "'a Pawn_scheme \<Rightarrow> 'a Pawn_scheme" where
  "toggleDoubleJump this = this\<lparr>double_jumpable := \<not> double_jumpable this\<rparr>"

definition canPromote :: "int \<Rightarrow> 'a Pawn_scheme \<Rightarrow> bool" where
  "canPromote BL this =
     ((isMovingUp this \<and> getRow this = BL - 1) \<or> (\<not> isMovingUp this \<and> getRow this = 0))"

subsection \<open>Predicates of the specification\<close>

text \<open>Invariant I1 of the specification: a piece is never half-placed.\<close>

definition I1 :: "'a ChessPiece_scheme \<Rightarrow> bool" where
  "I1 p = ((row p = - 1) = (column p = - 1))"

text \<open>
  The positions the class stores: each coordinate is the sentinel or an index of the
  board. Every constructor establishes this and every member function keeps it.
\<close>

definition stored_position :: "int \<Rightarrow> 'a ChessPiece_scheme \<Rightarrow> bool" where
  "stored_position BL p =
     ((row p = - 1 \<or> (0 \<le> row p \<and> row p < BL)) \<and> (column p = - 1 \<or> (0 \<le> column p \<and> column p < BL)))"

section \<open>Properties\<close>

subsection \<open>The loops\<close>

lemma isAlphabetic_iff: "isAlphabetic s = (\<forall>c \<in> set s. isalpha c)"
  by (induction s) auto

lemma uppercase_map: "uppercase s = map toupper s"
  by (induction s) auto

subsection \<open>The library model\<close>

lemma toupper_isalpha: "isalpha c \<Longrightarrow> 65 \<le> (of_char (toupper c) :: nat) \<and> (of_char (toupper c) :: nat) \<le> 90"
  by (auto simp: isalpha_def toupper_def Let_def)

lemma toupper_idem: "toupper (toupper c) = toupper c"
  by (auto simp: toupper_def Let_def)

lemma isalpha_not_newline: "isalpha c \<Longrightarrow> c \<noteq> CHR 0x0A"
  by (auto simp: isalpha_def)

lemma digit_not_newline: "d < 10 \<Longrightarrow> char_of (48 + d :: nat) \<noteq> CHR 0x0A"
proof
  assume d: "d < 10" and eq: "char_of (48 + d) = CHR 0x0A"
  from eq have "(of_char (char_of (48 + d)) :: nat) = of_char (CHR 0x0A)"
    by simp
  with d show False
    by simp
qed

lemma show_nat_no_newline: "CHR 0x0A \<notin> set (show_nat n)"
proof (induction n rule: show_nat.induct)
  case (1 n)
  show ?case
  proof (cases "n < 10")
    case True
    then have "char_of (48 + n) \<noteq> CHR 0x0A"
      by (rule digit_not_newline)
    with True show ?thesis
      by (auto simp: show_nat.simps [of n])
  next
    case False
    have "n mod 10 < 10"
      by simp
    then have "char_of (48 + n mod 10) \<noteq> CHR 0x0A"
      by (rule digit_not_newline)
    with False "1.IH" show ?thesis
      by (auto simp: show_nat.simps [of n])
  qed
qed

lemma show_int_no_newline: "CHR 0x0A \<notin> set (show_int i)"
  by (simp add: show_int_def show_nat_no_newline)

subsection \<open>Positions\<close>

lemmas piece_defs =
  ChessPiece_default_def ChessPiece_param_def Rook_default_def Rook_param_def
  Pawn_default_def Pawn_param_def ChessPiece.defs Rook.defs Pawn.defs

lemmas getter_defs = getColor_def getRow_def getColumn_def isMovingUp_def

lemma stored_position_constructors:
  "stored_position BL ChessPiece_default"
  "stored_position BL (ChessPiece_param BL clr r c mu)"
  "stored_position BL Rook_default"
  "stored_position BL (Rook_param BL clr r c mu n)"
  "stored_position BL Pawn_default"
  "stored_position BL (Pawn_param BL clr r c mu dj)"
  by (simp_all add: stored_position_def piece_defs)

lemma stored_position_setters:
  assumes "stored_position BL p"
  shows "stored_position BL (snd (setColor clr p))"
    and "stored_position BL (setRow BL r p)"
    and "stored_position BL (setColumn BL c p)"
    and "stored_position BL (setMovingUp mu p)"
  using assms
  by (simp_all add: stored_position_def setColor_def setRow_def setColumn_def setMovingUp_def)

lemma stored_position_toggleDoubleJump:
  "stored_position BL q \<Longrightarrow> stored_position BL (toggleDoubleJump q)"
  by (simp add: stored_position_def toggleDoubleJump_def)

lemma stored_position_display:
  "stored_position BL p \<Longrightarrow> stored_position BL (fst (display p out))"
  by (simp add: display_def)

text \<open>
  The subtraction in \<^verbatim>\<open>canCastle\<close> is reached only when no coordinate is the sentinel;
  on stored positions both columns are then indices of the board, and their difference
  is an \<^verbatim>\<open>int\<close> whenever \<^verbatim>\<open>BOARD_LENGTH\<close> is one.
\<close>

lemma canCastle_difference_int32:
  assumes "stored_position BL this" and "stored_position BL piece"
    and "getColumn this \<noteq> - 1" and "getColumn piece \<noteq> - 1"
    and "BL \<le> 2 ^ 31 - 1"
  shows "- (2 ^ 31) \<le> getColumn this - getColumn piece"
    and "getColumn this - getColumn piece < 2 ^ 31"
  using assms by (auto simp: stored_position_def getter_defs)

subsection \<open>Stored colours\<close>

text \<open>
  Every colour the class stores is alphabetic: the default \<open>BLACK\<close>, or the upper
  case of an alphabetic string. An alphabetic colour holds no line feed.
\<close>

lemma isalpha_toupper: "isalpha ch \<Longrightarrow> isalpha (toupper ch)"
  using toupper_isalpha [of ch] by (simp add: isalpha_def [of "toupper ch"])

lemma BLACK_alphabetic: "\<forall>ch \<in> set ''BLACK''. isalpha ch"
  by code_simp

lemma stored_color_constructors:
  "\<forall>ch \<in> set (color ChessPiece_default). isalpha ch"
  "\<forall>ch \<in> set (color (ChessPiece_param BL clr r c mu)). isalpha ch"
  "\<forall>ch \<in> set (color Rook_default). isalpha ch"
  "\<forall>ch \<in> set (color (Rook_param BL clr r c mu n)). isalpha ch"
  "\<forall>ch \<in> set (color Pawn_default). isalpha ch"
  "\<forall>ch \<in> set (color (Pawn_param BL clr r c mu dj)). isalpha ch"
  using BLACK_alphabetic
  by (simp_all add: piece_defs isAlphabetic_iff uppercase_map isalpha_toupper)

lemma stored_color_setColor:
  "\<forall>ch \<in> set (color p). isalpha ch \<Longrightarrow> \<forall>ch \<in> set (color (snd (setColor clr p))). isalpha ch"
  by (simp add: setColor_def isAlphabetic_iff uppercase_map isalpha_toupper)

lemma stored_color_no_newline:
  "\<forall>ch \<in> set (color p). isalpha ch \<Longrightarrow> CHR 0x0A \<notin> set (color p)"
  using isalpha_not_newline by blast

subsection \<open>Construction\<close>

text \<open>
  C6. The parameterized constructor of a piece, and through it the one of a rook and of
  a pawn, stores the row and the column as given when both lie in
  \<open>[0, BOARD_LENGTH)\<close>, stores \<open>-1\<close> for both when either lies outside (also when
  the other one is in range), and stores \<open>movingUp\<close> as given in every case.
\<close>

theorem constructor_position:
  fixes BL r c :: int
  defines "inside \<equiv> 0 \<le> r \<and> r < BL \<and> 0 \<le> c \<and> c < BL"
  shows "(inside \<longrightarrow> row (ChessPiece_param BL clr r c mu) = r
                    \<and> column (ChessPiece_param BL clr r c mu) = c)
       \<and> (\<not> inside \<longrightarrow> row (ChessPiece_param BL clr r c mu) = - 1
                      \<and> column (ChessPiece_param BL clr r c mu) = - 1)
       \<and> movingUp (ChessPiece_param BL clr r c mu) = mu
       \<and> (inside \<longrightarrow> row (Rook_param BL clr r c mu n) = r
                    \<and> column (Rook_param BL clr r c mu n) = c)
       \<and> (\<not> inside \<longrightarrow> row (Rook_param BL clr r c mu n) = - 1
                      \<and> column (Rook_param BL clr r c mu n) = - 1)
       \<and> movingUp (Rook_param BL clr r c mu n) = mu
       \<and> (inside \<longrightarrow> row (Pawn_param BL clr r c mu dj) = r
                    \<and> column (Pawn_param BL clr r c mu dj) = c)
       \<and> (\<not> inside \<longrightarrow> row (Pawn_param BL clr r c mu dj) = - 1
                      \<and> column (Pawn_param BL clr r c mu dj) = - 1)
       \<and> movingUp (Pawn_param BL clr r c mu dj) = mu"
  unfolding inside_def by (simp add: piece_defs)

theorem constructor_position_witness:
  "row (ChessPiece_param 8 ''white'' 2 4 True) = 2
   \<and> column (ChessPiece_param 8 ''white'' 2 4 True) = 4
   \<and> movingUp (ChessPiece_param 8 ''white'' 2 4 True)
   \<and> row (Rook_param 8 ''white'' 2 8 False 3) = - 1
   \<and> column (Rook_param 8 ''white'' 2 8 False 3) = - 1
   \<and> \<not> movingUp (Rook_param 8 ''white'' 2 8 False 3)
   \<and> row (Pawn_param 8 ''white'' (- 3) 4 True False) = - 1
   \<and> column (Pawn_param 8 ''white'' (- 3) 4 True False) = - 1"
  using constructor_position [of 2 8 4 "''white''" True 3 False]
    constructor_position [of 2 8 8 "''white''" False 3 False]
    constructor_position [of "- 3" 8 4 "''white''" True 3 False]
  by simp

text \<open>
  C7. A rook constructed with the castle-moves argument \<open>n\<close> reports
  \<open>max 0 n\<close> castle moves left, hence 0 for every negative \<open>n\<close>; a
  default-constructed rook reports 3.
\<close>

theorem rook_castle_moves:
  "getCastleMovesLeft (Rook_param BL clr r c mu n) = max 0 n
   \<and> (n < 0 \<longrightarrow> getCastleMovesLeft (Rook_param BL clr r c mu n) = 0)
   \<and> getCastleMovesLeft Rook_default = 3"
  by (simp add: getCastleMovesLeft_def piece_defs)

theorem rook_castle_moves_witness:
  "getCastleMovesLeft (Rook_param 8 ''white'' 0 0 False (- 5)) = 0
   \<and> getCastleMovesLeft (Rook_param 8 ''white'' 0 0 False 2) = 2
   \<and> getCastleMovesLeft Rook_default = 3"
  using rook_castle_moves [of 8 "''white''" 0 0 False "- 5"]
    rook_castle_moves [of 8 "''white''" 0 0 False 2]
  by simp

text \<open>
  C10. The empty string passes the alphabetic check, no character of it failing:
  a piece constructed with the empty colour stores the empty colour, not
  \<open>BLACK\<close>, and \<open>setColor\<close> of the empty string returns true and stores the
  empty colour.
\<close>

theorem empty_color_accepted:
  "isAlphabetic []
   \<and> color (ChessPiece_param BL [] r c mu) = []
   \<and> color (ChessPiece_param BL [] r c mu) \<noteq> ''BLACK''
   \<and> setColor [] p = (True, p\<lparr>color := []\<rparr>)"
  by (simp add: setColor_def piece_defs)

theorem empty_color_accepted_witness:
  "color (ChessPiece_param 8 [] 2 4 True) = []
   \<and> fst (setColor [] (ChessPiece_param 8 ''white'' 2 4 True))
   \<and> color (snd (setColor [] (ChessPiece_param 8 ''white'' 2 4 True))) = []"
  using empty_color_accepted [of 8 2 4 True "ChessPiece_param 8 ''white'' 2 4 True"]
  by simp

subsection \<open>Setters\<close>

text \<open>
  C4. \<open>setRow\<close> with an argument in \<open>[0, BOARD_LENGTH)\<close> stores it as the row
  and leaves the column as it was; with any other argument it sets the row and the
  column to \<open>-1\<close>. \<open>setColumn\<close> does the same with the roles of row and column
  exchanged. Neither changes the colour, the direction or a member of a derived class.
\<close>

theorem setRow_setColumn_effect:
  "(0 \<le> r \<and> r < BL \<longrightarrow> row (setRow BL r p) = r \<and> column (setRow BL r p) = column p)
   \<and> (\<not> (0 \<le> r \<and> r < BL) \<longrightarrow> row (setRow BL r p) = - 1 \<and> column (setRow BL r p) = - 1)
   \<and> color (setRow BL r p) = color p
   \<and> movingUp (setRow BL r p) = movingUp p
   \<and> ChessPiece.more (setRow BL r p) = ChessPiece.more p
   \<and> (0 \<le> c \<and> c < BL \<longrightarrow> column (setColumn BL c p) = c \<and> row (setColumn BL c p) = row p)
   \<and> (\<not> (0 \<le> c \<and> c < BL) \<longrightarrow> row (setColumn BL c p) = - 1 \<and> column (setColumn BL c p) = - 1)
   \<and> color (setColumn BL c p) = color p
   \<and> movingUp (setColumn BL c p) = movingUp p
   \<and> ChessPiece.more (setColumn BL c p) = ChessPiece.more p"
  by (simp add: setRow_def setColumn_def)

theorem setRow_setColumn_effect_witness:
  "row (setRow 8 5 (ChessPiece_param 8 ''white'' 2 4 True)) = 5
   \<and> column (setRow 8 5 (ChessPiece_param 8 ''white'' 2 4 True)) = 4
   \<and> row (setRow 8 8 (ChessPiece_param 8 ''white'' 2 4 True)) = - 1
   \<and> column (setRow 8 8 (ChessPiece_param 8 ''white'' 2 4 True)) = - 1
   \<and> column (setColumn 8 0 (ChessPiece_param 8 ''white'' 2 4 True)) = 0
   \<and> row (setColumn 8 0 (ChessPiece_param 8 ''white'' 2 4 True)) = 2
   \<and> row (setColumn 8 (- 1) (ChessPiece_param 8 ''white'' 2 4 True)) = - 1
   \<and> column (setColumn 8 (- 1) (ChessPiece_param 8 ''white'' 2 4 True)) = - 1"
  using setRow_setColumn_effect [of 5 8 "ChessPiece_param 8 ''white'' 2 4 True" 0]
    setRow_setColumn_effect [of 8 8 "ChessPiece_param 8 ''white'' 2 4 True" "- 1"]
  by (simp add: piece_defs)

text \<open>
  C5. \<open>setColor\<close> returns true and stores the upper-cased argument when every
  character of the argument is alphabetic; otherwise it returns false and the piece
  (colour, row, column, direction, and the members of a derived class) is as before.
\<close>

theorem setColor_result:
  "((\<forall>ch \<in> set clr. isalpha ch) \<longrightarrow> setColor clr p = (True, p\<lparr>color := map toupper clr\<rparr>))
   \<and> (\<not> (\<forall>ch \<in> set clr. isalpha ch) \<longrightarrow> setColor clr p = (False, p))"
  by (simp add: setColor_def isAlphabetic_iff uppercase_map)

theorem setColor_result_witness:
  "setColor ''abc'' (ChessPiece_param 8 ''white'' 2 4 True)
     = (True, \<lparr>color = ''ABC'', row = 2, column = 4, movingUp = True\<rparr>)
   \<and> setColor ''a1b'' (ChessPiece_param 8 ''white'' 2 4 True)
     = (False, \<lparr>color = ''WHITE'', row = 2, column = 4, movingUp = True\<rparr>)"
proof -
  have abc: "\<forall>ch \<in> set ''abc''. isalpha ch"
    by code_simp
  have a1b: "\<not> (\<forall>ch \<in> set ''a1b''. isalpha ch)"
    by code_simp
  have upper: "map toupper ''abc'' = ''ABC''"
    by code_simp
  have piece: "ChessPiece_param 8 ''white'' 2 4 True
                 = \<lparr>color = ''WHITE'', row = 2, column = 4, movingUp = True\<rparr>"
    by code_simp
  from abc a1b
    setColor_result [of "''abc''" "ChessPiece_param 8 ''white'' 2 4 True"]
    setColor_result [of "''a1b''" "ChessPiece_param 8 ''white'' 2 4 True"]
  show ?thesis
    unfolding upper piece by simp
qed

subsection \<open>The invariant I1\<close>

text \<open>
  C1, as stated, fails: \<open>setRow\<close> with an argument in range stores the row and does
  not look at the column, so on a default-constructed piece (row and column \<open>-1\<close>)
  \<open>setRow 3\<close> on a board of length 8 leaves row 3 and column \<open>-1\<close>.
\<close>

theorem I1_setRow_counterexample:
  "I1 ChessPiece_default
   \<and> row (setRow 8 3 ChessPiece_default) = 3
   \<and> column (setRow 8 3 ChessPiece_default) = - 1
   \<and> \<not> I1 (setRow 8 3 ChessPiece_default)"
  by (simp add: I1_def setRow_def ChessPiece_default_def)

text \<open>
  C1, amended. Every constructor establishes I1. \<open>setColor\<close>, \<open>setMovingUp\<close> and
  \<open>toggleDoubleJump\<close> leave I1 as it was. \<open>setRow\<close> with an argument outside
  \<open>[0, BOARD_LENGTH)\<close> establishes I1 whatever the piece was; with an argument in
  range, I1 holds afterwards exactly when the column was not \<open>-1\<close> before the call.
  \<open>setColumn\<close> is symmetric.
\<close>

theorem I1_operations:
  "I1 ChessPiece_default
   \<and> I1 (ChessPiece_param BL clr r c mu)
   \<and> I1 Rook_default
   \<and> I1 (Rook_param BL clr r c mu n)
   \<and> I1 Pawn_default
   \<and> I1 (Pawn_param BL clr r c mu dj)
   \<and> I1 (snd (setColor clr' p)) = I1 p
   \<and> I1 (setMovingUp mu' p) = I1 p
   \<and> I1 (toggleDoubleJump q) = I1 q
   \<and> I1 (setRow BL r' p) = (0 \<le> r' \<and> r' < BL \<longrightarrow> column p \<noteq> - 1)
   \<and> I1 (setColumn BL c' p) = (0 \<le> c' \<and> c' < BL \<longrightarrow> row p \<noteq> - 1)"
  by (auto simp: I1_def piece_defs setColor_def setMovingUp_def toggleDoubleJump_def
      setRow_def setColumn_def)

theorem I1_operations_witness:
  "I1 (setRow 8 5 (Pawn_param 8 ''white'' 2 4 True False))
   \<and> I1 (setRow 8 8 (Pawn_param 8 ''white'' 2 4 True False))
   \<and> I1 (setColumn 8 5 (Pawn_param 8 ''white'' 2 4 True False))
   \<and> I1 (setColumn 8 (- 1) Pawn_default)
   \<and> \<not> I1 (setColumn 8 5 Pawn_default)
   \<and> I1 (snd (setColor ''red'' Pawn_default))
   \<and> I1 (setMovingUp True Pawn_default)
   \<and> I1 (toggleDoubleJump Pawn_default)"
proof -
  let ?p = "Pawn_param 8 ''white'' 2 4 True False"
  have on: "row ?p \<noteq> - 1" "column ?p \<noteq> - 1"
    by (simp_all add: piece_defs)
  have off: "row Pawn_default = - 1" "column Pawn_default = - 1"
    by (simp_all add: piece_defs)
  from on off
    I1_operations [of 8 "''white''" 2 4 True 3 False "''red''" ?p True Pawn_default 5 5]
    I1_operations [of 8 "''white''" 2 4 True 3 False "''red''" ?p True Pawn_default 8 5]
    I1_operations [of 8 "''white''" 2 4 True 3 False "''red''" Pawn_default True Pawn_default 8 "- 1"]
    I1_operations [of 8 "''white''" 2 4 True 3 False "''red''" Pawn_default True Pawn_default 8 5]
  show ?thesis
    by simp
qed

subsection \<open>Rook: castling\<close>

text \<open>
  C2. \<open>canCastle\<close> of a rook \<open>R\<close> and a piece \<open>P\<close> is true exactly when
  \<open>R\<close> has more than 0 castle moves left, both have the same colour, none of the
  four coordinates is \<open>-1\<close>, both are in the same row, and their columns differ by
  at most 1. The member function is \<^verbatim>\<open>const\<close> and takes \<open>P\<close> by reference to
  \<^verbatim>\<open>const\<close>: it is a function of the two objects to its result and assigns to
  neither, the castle moves included.
\<close>

theorem canCastle_iff:
  "canCastle R P \<longleftrightarrow>
     castle_moves_left R > 0
     \<and> color R = color P
     \<and> row R \<noteq> - 1 \<and> column R \<noteq> - 1 \<and> row P \<noteq> - 1 \<and> column P \<noteq> - 1
     \<and> row R = row P
     \<and> \<bar>column R - column P\<bar> \<le> 1"
  by (auto simp: canCastle_def getter_defs)

theorem canCastle_iff_witness:
  "canCastle (Rook_param 8 ''white'' 3 4 False 3) (Rook_param 8 ''white'' 3 5 True 0)
   \<and> \<not> canCastle (Rook_param 8 ''white'' 3 4 False 3) (setColumn 8 6 (Rook_param 8 ''white'' 3 5 True 0))
   \<and> \<not> canCastle (Rook_param 8 ''white'' 3 4 False 3) (setRow 8 (- 1) (Rook_param 8 ''white'' 3 5 True 0))
   \<and> \<not> canCastle (setColumn 8 8 (Rook_param 8 ''white'' 3 4 False 3)) (Rook_param 8 ''white'' 3 5 True 0)
   \<and> \<not> canCastle (Rook_param 8 ''white'' 3 4 False 0) (Rook_param 8 ''white'' 3 5 True 0)
   \<and> \<not> canCastle (Rook_param 8 ''white'' 3 4 False 3) (Pawn_param 8 ''black'' 3 5 True False)
   \<and> \<not> canCastle (Rook_param 8 ''white'' 3 4 False 3) (ChessPiece_param 8 ''white'' 2 5 True)"
proof -
  let ?R = "Rook_param 8 ''white'' 3 4 False 3"
  let ?P = "Rook_param 8 ''white'' 3 5 True 0"
  have R: "?R = \<lparr>color = ''WHITE'', row = 3, column = 4, movingUp = False, castle_moves_left = 3\<rparr>"
    by code_simp
  have R0: "Rook_param 8 ''white'' 3 4 False 0
              = \<lparr>color = ''WHITE'', row = 3, column = 4, movingUp = False, castle_moves_left = 0\<rparr>"
    by code_simp
  have P: "?P = \<lparr>color = ''WHITE'', row = 3, column = 5, movingUp = True, castle_moves_left = 0\<rparr>"
    by code_simp
  have Q: "Pawn_param 8 ''black'' 3 5 True False
             = \<lparr>color = ''BLACK'', row = 3, column = 5, movingUp = True, double_jumpable = False\<rparr>"
    by code_simp
  have S: "ChessPiece_param 8 ''white'' 2 5 True
             = \<lparr>color = ''WHITE'', row = 2, column = 5, movingUp = True\<rparr>"
    by code_simp
  from canCastle_iff [of ?R ?P]
    canCastle_iff [of ?R "setColumn 8 6 ?P"]
    canCastle_iff [of ?R "setRow 8 (- 1) ?P"]
    canCastle_iff [of "setColumn 8 8 ?R" ?P]
    canCastle_iff [of "Rook_param 8 ''white'' 3 4 False 0" ?P]
    canCastle_iff [of ?R "Pawn_param 8 ''black'' 3 5 True False"]
    canCastle_iff [of ?R "ChessPiece_param 8 ''white'' 2 5 True"]
  show ?thesis
    unfolding R R0 P Q S by (simp add: setRow_def setColumn_def)
qed

text \<open>
  C8. A rook that is on the board (row and column not \<open>-1\<close>) and has more than 0
  castle moves left can castle with itself: same colour, same row, column distance 0.
\<close>

theorem canCastle_self:
  "row R \<noteq> - 1 \<Longrightarrow> column R \<noteq> - 1 \<Longrightarrow> castle_moves_left R > 0 \<Longrightarrow> canCastle R R"
  by (simp add: canCastle_def getter_defs)

theorem canCastle_self_witness:
  "row (Rook_param 8 ''white'' 3 4 False 3) \<noteq> - 1
   \<and> column (Rook_param 8 ''white'' 3 4 False 3) \<noteq> - 1
   \<and> castle_moves_left (Rook_param 8 ''white'' 3 4 False 3) > 0
   \<and> canCastle (Rook_param 8 ''white'' 3 4 False 3) (Rook_param 8 ''white'' 3 4 False 3)"
proof -
  let ?R = "Rook_param 8 ''white'' 3 4 False 3"
  have h: "row ?R \<noteq> - 1" "column ?R \<noteq> - 1" "castle_moves_left ?R > 0"
    by (simp_all add: piece_defs)
  from h canCastle_self [OF h] show ?thesis
    by simp
qed

subsection \<open>Pawn: promotion\<close>

text \<open>
  C3. \<open>canPromote\<close> is true exactly when the pawn moves up and its row is
  \<open>BOARD_LENGTH - 1\<close>, or it moves down and its row is 0. A pawn whose row is
  \<open>-1\<close> cannot be promoted, whatever its direction; this part needs a board length
  other than 0, since on a board of length 0 the row \<open>-1\<close> is
  \<open>BOARD_LENGTH - 1\<close>.
\<close>

theorem canPromote_iff:
  "(canPromote BL p \<longleftrightarrow> (movingUp p \<and> row p = BL - 1) \<or> (\<not> movingUp p \<and> row p = 0))
   \<and> (BL \<noteq> 0 \<longrightarrow> row p = - 1 \<longrightarrow> \<not> canPromote BL p)"
  by (auto simp: canPromote_def getter_defs)

theorem canPromote_iff_witness:
  "canPromote 8 (Pawn_param 8 ''white'' 7 2 True False)
   \<and> \<not> canPromote 8 (Pawn_param 8 ''white'' 6 2 True False)
   \<and> canPromote 8 (Pawn_param 8 ''white'' 0 2 False False)
   \<and> \<not> canPromote 8 (Pawn_param 8 ''white'' 7 2 False False)
   \<and> \<not> canPromote 8 Pawn_default
   \<and> \<not> canPromote 8 (setMovingUp True Pawn_default)"
proof -
  have off: "row Pawn_default = - 1" "row (setMovingUp True Pawn_default) = - 1"
    by (simp_all add: piece_defs setMovingUp_def)
  have on: "row (Pawn_param 8 ''white'' 7 2 True False) = 7" "movingUp (Pawn_param 8 ''white'' 7 2 True False)"
    "row (Pawn_param 8 ''white'' 6 2 True False) = 6" "movingUp (Pawn_param 8 ''white'' 6 2 True False)"
    "row (Pawn_param 8 ''white'' 0 2 False False) = 0" "\<not> movingUp (Pawn_param 8 ''white'' 0 2 False False)"
    "row (Pawn_param 8 ''white'' 7 2 False False) = 7" "\<not> movingUp (Pawn_param 8 ''white'' 7 2 False False)"
    by (simp_all add: piece_defs)
  from off on
    canPromote_iff [of 8 "Pawn_param 8 ''white'' 7 2 True False"]
    canPromote_iff [of 8 "Pawn_param 8 ''white'' 6 2 True False"]
    canPromote_iff [of 8 "Pawn_param 8 ''white'' 0 2 False False"]
    canPromote_iff [of 8 "Pawn_param 8 ''white'' 7 2 False False"]
    canPromote_iff [of 8 Pawn_default]
    canPromote_iff [of 8 "setMovingUp True Pawn_default"]
  show ?thesis
    by simp
qed

subsection \<open>Output\<close>

text \<open>
  C9. \<open>display\<close> appends one line to the output and returns the piece as it was.
  For a piece with row and column other than \<open>-1\<close> the line is the colour, then
  \<open>piece at (row,column) is moving UP\<close> when the piece moves up and
  \<open>... is moving DOWN\<close> when it does not; otherwise the line is the colour, then
  \<open>piece is not on the board\<close>. The line feed that ends the line is the only one
  written, provided the colour holds none (no colour a constructor or \<open>setColor\<close>
  stores does: lemma \<open>stored_color_no_newline\<close>).
\<close>

theorem display_one_line:
  "let line = (if row p \<noteq> - 1 \<and> column p \<noteq> - 1
               then color p @ '' piece at ('' @ show_int (row p) @ '','' @ show_int (column p)
                      @ '') is moving '' @ (if movingUp p then ''UP'' else ''DOWN'')
               else color p @ '' piece is not on the board'')
   in display p out = (p, out @ line @ [CHR 0x0A])
      \<and> (CHR 0x0A \<notin> set (color p) \<longrightarrow> CHR 0x0A \<notin> set line)"
  by (simp add: Let_def display_def endl_def show_int_no_newline)

theorem display_one_line_witness:
  "display (ChessPiece_param 8 ''black'' 2 4 True) []
     = (ChessPiece_param 8 ''black'' 2 4 True, ''BLACK piece at (2,4) is moving UP'' @ [CHR 0x0A])
   \<and> display (setMovingUp False (ChessPiece_param 8 ''black'' 2 4 True)) []
     = (setMovingUp False (ChessPiece_param 8 ''black'' 2 4 True),
        ''BLACK piece at (2,4) is moving DOWN'' @ [CHR 0x0A])
   \<and> display (ChessPiece_param 8 ''white'' 8 4 True) []
     = (ChessPiece_param 8 ''white'' 8 4 True, ''WHITE piece is not on the board'' @ [CHR 0x0A])
   \<and> CHR 0x0A \<notin> set (color (ChessPiece_param 8 ''black'' 2 4 True))"
proof -
  have P: "ChessPiece_param 8 ''black'' 2 4 True
             = \<lparr>color = ''BLACK'', row = 2, column = 4, movingUp = True\<rparr>"
    by code_simp
  have Q: "ChessPiece_param 8 ''white'' 8 4 True
             = \<lparr>color = ''WHITE'', row = - 1, column = - 1, movingUp = True\<rparr>"
    by code_simp
  have digits: "show_int 2 = ''2''" "show_int 4 = ''4''"
    by code_simp+
  from display_one_line [of "ChessPiece_param 8 ''black'' 2 4 True" "[]"]
    display_one_line [of "setMovingUp False (ChessPiece_param 8 ''black'' 2 4 True)" "[]"]
    display_one_line [of "ChessPiece_param 8 ''white'' 8 4 True" "[]"]
  show ?thesis
    unfolding P Q by (simp add: Let_def digits setMovingUp_def)
qed

end
